theory Spec2Isabelle
  imports Main
begin

section \<open>The Builder pattern of \<^verbatim>\<open>src/creational/builder.ts\<close>\<close>

text \<open>
  The program builds \<^verbatim>\<open>House\<close> objects through builder objects that a \<^verbatim>\<open>Director\<close>
  drives. Houses, builders and directors are mutable objects that the client reaches
  through references, and the questions asked about the program (what a retrieved house
  still shares with its builder, what rebinding the director touches) depend on which
  reference points where. The embedding therefore keeps an explicit store: one typed heap
  per class, a reference being an index into the heap of its class, and \<^verbatim>\<open>new\<close>
  appending an object at the end of the heap, so that a new reference differs from every
  reference already in use.

  The source has two files: \<^verbatim>\<open>builder.ts\<close> with the classes \<^verbatim>\<open>CheapHouseBuilder\<close> and
  \<^verbatim>\<open>CastleBuilder\<close>, and a compiled JavaScript file (\<^verbatim>\<open>src/unnamed/part_000\<close>)
  with the class \<^verbatim>\<open>ConcreteBuilder1\<close> and the recipe \<^verbatim>\<open>buildLuxuryHouse\<close>.
\<close>

subsection \<open>Objects and the store\<close>

type_synonym ref = nat

text \<open>\<^verbatim>\<open>class House { public parts: string[] = []; ... }\<close>\<close>

record House =
  parts :: "string list"

datatype builder_class = ConcreteBuilder1 | CheapHouseBuilder | CastleBuilder

text \<open>
  A builder object: its class, which selects the method bodies, and its field
  \<^verbatim>\<open>private house: House\<close>, \<open>None\<close> while the field is still \<^verbatim>\<open>undefined\<close>.
\<close>

record Builder =
  cls :: builder_class
  house :: "ref option"

text \<open>\<^verbatim>\<open>class Director { private builder: Builder; ... }\<close>: the field has no initialiser,
  so it is \<^verbatim>\<open>undefined\<close> (\<open>None\<close>) until \<^verbatim>\<open>setBuilder\<close> assigns it.\<close>

record Director =
  builder :: "ref option"

text \<open>The store: the three heaps and the lines written by \<^verbatim>\<open>console.log\<close>.\<close>

record store =
  houses :: "House list"
  builders :: "Builder list"
  directors :: "Director list"
  console :: "string list"

definition empty_store :: store where
  "empty_store = \<lparr>houses = [], builders = [], directors = [], console = []\<rparr>"

text \<open>
  \<open>TypeError\<close> is what JavaScript throws when a property of \<^verbatim>\<open>undefined\<close> is read or
  called. \<open>InvalidReference\<close> is the result of the model for a reference that points
  outside its heap; no execution of the program creates such a reference, the branch is
  there so that every operation is defined on every store.
\<close>

datatype error = TypeError | InvalidReference

text \<open>
  An operation either returns a value or throws; both leave a store behind, since the
  effects made before a throw stay.
\<close>

datatype 'a result = Return 'a store | Throw error store

fun andThen :: "'a result \<Rightarrow> ('a \<Rightarrow> store \<Rightarrow> 'b result) \<Rightarrow> 'b result" where
  "andThen (Return x s) f = f x s"
| "andThen (Throw e s) f = Throw e s"

text \<open>A method call \<^verbatim>\<open>r.m()\<close> on a reference \<open>r\<close> that may be \<^verbatim>\<open>undefined\<close>.\<close>

fun invoke :: "ref option \<Rightarrow> (ref \<Rightarrow> store \<Rightarrow> 'a result) \<Rightarrow> store \<Rightarrow> 'a result" where
  "invoke None m s = Throw TypeError s"
| "invoke (Some r) m s = m r s"

subsection \<open>House\<close>

text \<open>\<^verbatim>\<open>new House()\<close>: a new object with \<^verbatim>\<open>parts = []\<close>.\<close>

definition new_House :: "store \<Rightarrow> ref result" where
  "new_House s = Return (length (houses s)) (s\<lparr>houses := houses s @ [\<lparr>parts = []\<rparr>]\<rparr>)"

text \<open>\<^verbatim>\<open>Array.prototype.join\<close> on an array of strings.\<close>

fun join :: "string list \<Rightarrow> string \<Rightarrow> string" where
  "join [] sep = []"
| "join [x] sep = x"
| "join (x # y # ys) sep = x @ sep @ join (y # ys) sep"

definition console_log :: "string \<Rightarrow> store \<Rightarrow> unit result" where
  "console_log text s = Return () (s\<lparr>console := console s @ [text]\<rparr>)"

text \<open>
  \<^verbatim>\<open>listParts(): void { console.log(`House parts: ${this.parts.join(', ')}\n`); }\<close>
  The template ends in a line feed, which is part of the text handed to \<^verbatim>\<open>console.log\<close>.
\<close>

definition listParts :: "ref \<Rightarrow> store \<Rightarrow> unit result" where
  "listParts this s =
     (if this < length (houses s)
      then console_log (''House parts: '' @ join (parts (houses s ! this)) '', '' @ [CHR 0x0A]) s
      else Throw InvalidReference s)"

subsection \<open>The concrete builders\<close>

text \<open>\<^verbatim>\<open>reset(): void { this.house = new House(); }\<close>, the same in the three classes.\<close>

definition reset :: "ref \<Rightarrow> store \<Rightarrow> unit result" where
  "reset this s =
     (if this < length (builders s)
      then andThen (new_House s)
             (\<lambda>h s'. Return () (s'\<lparr>builders := (builders s')[this := (builders s' ! this)\<lparr>house := Some h\<rparr>]\<rparr>))
      else Throw InvalidReference s)"

text \<open>
  The constructors: \<^verbatim>\<open>constructor() { this.reset(); }\<close>. The object exists, with its
  field undefined, when the body runs. \<^verbatim>\<open>CastleBuilder\<close>'s constructor takes a parameter
  \<^verbatim>\<open>bridge\<close> of no declared type, which its body never reads.
\<close>

definition new_Builder :: "builder_class \<Rightarrow> store \<Rightarrow> ref result" where
  "new_Builder c s =
     (let this = length (builders s)
      in andThen (reset this (s\<lparr>builders := builders s @ [\<lparr>cls = c, house = None\<rparr>]\<rparr>))
           (\<lambda>_ s'. Return this s'))"

definition new_ConcreteBuilder1 :: "store \<Rightarrow> ref result" where
  "new_ConcreteBuilder1 s = new_Builder ConcreteBuilder1 s"

definition new_CheapHouseBuilder :: "store \<Rightarrow> ref result" where
  "new_CheapHouseBuilder s = new_Builder CheapHouseBuilder s"

definition new_CastleBuilder :: "'a \<Rightarrow> store \<Rightarrow> ref result" where
  "new_CastleBuilder bridge s = new_Builder CastleBuilder s"

text \<open>The seven steps of the \<^verbatim>\<open>Builder\<close> interface, in the order of its declaration.\<close>

datatype step = Walls | Windows | Door | Roof | SwimmingPool | Garage | Garden

text \<open>The string literal that each class pushes in each step.\<close>

fun label :: "builder_class \<Rightarrow> step \<Rightarrow> string" where
  "label ConcreteBuilder1 Walls = ''Walls''"
| "label ConcreteBuilder1 Windows = ''Windows''"
| "label ConcreteBuilder1 Door = ''Door''"
| "label ConcreteBuilder1 Roof = ''Roof''"
| "label ConcreteBuilder1 SwimmingPool = ''Swimming pool''"
| "label ConcreteBuilder1 Garage = ''Garage''"
| "label ConcreteBuilder1 Garden = ''Garden''"
| "label CheapHouseBuilder Walls = ''Walls''"
| "label CheapHouseBuilder Windows = ''Windows''"
| "label CheapHouseBuilder Door = ''Door''"
| "label CheapHouseBuilder Roof = ''Roof''"
| "label CheapHouseBuilder SwimmingPool = ''Swimming pool''"
| "label CheapHouseBuilder Garage = ''Garage''"
| "label CheapHouseBuilder Garden = ''Garden''"
| "label CastleBuilder Walls = ''Walls marmol''"
| "label CastleBuilder Windows = ''Windows''"
| "label CastleBuilder Door = ''Door''"
| "label CastleBuilder Roof = ''Roof''"
| "label CastleBuilder SwimmingPool = ''Swimming pool''"
| "label CastleBuilder Garage = ''Garage''"
| "label CastleBuilder Garden = ''Garden''"

text \<open>\<^verbatim>\<open>this.house.parts.push(l)\<close>, the body of every step.\<close>

definition push_part :: "string \<Rightarrow> ref \<Rightarrow> store \<Rightarrow> unit result" where
  "push_part l this s =
     (if this < length (builders s)
      then (case house (builders s ! this) of
              None \<Rightarrow> Throw TypeError s
            | Some h \<Rightarrow>
                if h < length (houses s)
                then Return () (s\<lparr>houses := (houses s)[h := (houses s ! h)\<lparr>parts := parts (houses s ! h) @ [l]\<rparr>]\<rparr>)
                else Throw InvalidReference s)
      else Throw InvalidReference s)"

text \<open>A step called on a builder reference runs the method of the object's class.\<close>

definition produce :: "step \<Rightarrow> ref \<Rightarrow> store \<Rightarrow> unit result" where
  "produce st this s =
     (if this < length (builders s)
      then push_part (label (cls (builders s ! this)) st) this s
      else Throw InvalidReference s)"

definition produceWalls :: "ref \<Rightarrow> store \<Rightarrow> unit result" where
  "produceWalls = produce Walls"

definition produceWindows :: "ref \<Rightarrow> store \<Rightarrow> unit result" where
  "produceWindows = produce Windows"

definition produceDoor :: "ref \<Rightarrow> store \<Rightarrow> unit result" where
  "produceDoor = produce Door"

definition produceRoof :: "ref \<Rightarrow> store \<Rightarrow> unit result" where
  "produceRoof = produce Roof"

definition produceSwimmingPool :: "ref \<Rightarrow> store \<Rightarrow> unit result" where
  "produceSwimmingPool = produce SwimmingPool"

definition produceGarage :: "ref \<Rightarrow> store \<Rightarrow> unit result" where
  "produceGarage = produce Garage"

definition produceGarden :: "ref \<Rightarrow> store \<Rightarrow> unit result" where
  "produceGarden = produce Garden"

text \<open>
  \<^verbatim>\<open>getHouse(): House { const result = this.house; this.reset(); return result; }\<close>
\<close>

definition getHouse :: "ref \<Rightarrow> store \<Rightarrow> ref option result" where
  "getHouse this s =
     (if this < length (builders s)
      then (let result = house (builders s ! this)
            in andThen (reset this s) (\<lambda>_ s'. Return result s'))
      else Throw InvalidReference s)"

subsection \<open>The director\<close>

text \<open>\<^verbatim>\<open>new Director()\<close>: the class has no constructor of its own.\<close>

definition new_Director :: "store \<Rightarrow> ref result" where
  "new_Director s = Return (length (directors s)) (s\<lparr>directors := directors s @ [\<lparr>builder = None\<rparr>]\<rparr>)"

text \<open>\<^verbatim>\<open>setBuilder(builder: Builder): void { this.builder = builder; }\<close>\<close>

definition setBuilder :: "ref \<Rightarrow> ref \<Rightarrow> store \<Rightarrow> unit result" where
  "setBuilder this b s =
     (if this < length (directors s)
      then Return () (s\<lparr>directors := (directors s)[this := (directors s ! this)\<lparr>builder := Some b\<rparr>]\<rparr>)
      else Throw InvalidReference s)"

text \<open>One statement \<^verbatim>\<open>this.builder.m();\<close> of a recipe: the field is read at each call.\<close>

definition this_builder :: "ref \<Rightarrow> (ref \<Rightarrow> store \<Rightarrow> unit result) \<Rightarrow> store \<Rightarrow> unit result" where
  "this_builder this m s =
     (if this < length (directors s)
      then invoke (builder (directors s ! this)) m s
      else Throw InvalidReference s)"

definition buildBasicHouse :: "ref \<Rightarrow> store \<Rightarrow> unit result" where
  "buildBasicHouse this s =
     andThen (andThen (andThen
       (this_builder this produceWalls s)
       (\<lambda>_. this_builder this produceWindows))
       (\<lambda>_. this_builder this produceDoor))
       (\<lambda>_. this_builder this produceRoof)"

definition buildFullHouse :: "ref \<Rightarrow> store \<Rightarrow> unit result" where
  "buildFullHouse this s =
     andThen (andThen (andThen (andThen (andThen (andThen
       (this_builder this produceWalls s)
       (\<lambda>_. this_builder this produceWindows))
       (\<lambda>_. this_builder this produceDoor))
       (\<lambda>_. this_builder this produceRoof))
       (\<lambda>_. this_builder this produceGarage))
       (\<lambda>_. this_builder this produceSwimmingPool))
       (\<lambda>_. this_builder this produceGarden)"

text \<open>
  The \<^verbatim>\<open>Director\<close> of the compiled file has \<^verbatim>\<open>setBuilder\<close>, \<^verbatim>\<open>buildBasicHouse\<close> and
  \<^verbatim>\<open>buildLuxuryHouse\<close>, and no \<^verbatim>\<open>buildFullHouse\<close>; the \<^verbatim>\<open>Director\<close> of \<^verbatim>\<open>builder.ts\<close>
  has \<^verbatim>\<open>buildFullHouse\<close> and no \<^verbatim>\<open>buildLuxuryHouse\<close>. Both classes have the one field
  \<^verbatim>\<open>builder\<close>, so the director objects of the store serve for both, and each recipe is the
  body of the method of its own file.
\<close>

definition buildLuxuryHouse :: "ref \<Rightarrow> store \<Rightarrow> unit result" where
  "buildLuxuryHouse this s =
     andThen (andThen (andThen (andThen (andThen (andThen
       (this_builder this produceWalls s)
       (\<lambda>_. this_builder this produceWindows))
       (\<lambda>_. this_builder this produceDoor))
       (\<lambda>_. this_builder this produceRoof))
       (\<lambda>_. this_builder this produceGarage))
       (\<lambda>_. this_builder this produceSwimmingPool))
       (\<lambda>_. this_builder this produceGarden)"

subsection \<open>Sequences of calls made by a client\<close>

text \<open>A client calling the steps \<open>S\<close> on one builder, one after the other.\<close>

fun run_steps :: "step list \<Rightarrow> ref \<Rightarrow> store \<Rightarrow> unit result" where
  "run_steps [] b s = Return () s"
| "run_steps (st # S) b s = andThen (produce st b s) (\<lambda>_. run_steps S b)"

text \<open>Reading the public field of a house: \<^verbatim>\<open>house.parts\<close>.\<close>

definition get_parts :: "ref \<Rightarrow> store \<Rightarrow> string list result" where
  "get_parts this s =
     (if this < length (houses s) then Return (parts (houses s ! this)) s
      else Throw InvalidReference s)"

text \<open>
  The operations a client can call on a builder. What the client sees of a call is
  nothing for the methods that return \<^verbatim>\<open>void\<close>, and the labels of the house that
  \<^verbatim>\<open>getHouse\<close> returns, read when it is returned. \<open>run_ops\<close> is a client calling a
  sequence of operations on one builder and collecting what it sees.
\<close>

datatype builder_op = Step step | Reset | GetHouse

fun run_op :: "builder_op \<Rightarrow> ref \<Rightarrow> store \<Rightarrow> string list option result" where
  "run_op (Step st) b s = andThen (produce st b s) (\<lambda>_. Return None)"
| "run_op Reset b s = andThen (reset b s) (\<lambda>_. Return None)"
| "run_op GetHouse b s =
     andThen (andThen (getHouse b s) (\<lambda>r. invoke r get_parts)) (\<lambda>p. Return (Some p))"

fun run_ops :: "builder_op list \<Rightarrow> ref \<Rightarrow> store \<Rightarrow> string list option list result" where
  "run_ops [] b s = Return [] s"
| "run_ops (opn # ops) b s =
     andThen (run_op opn b s) (\<lambda>x s'. andThen (run_ops ops b s') (\<lambda>xs. Return (x # xs)))"

subsection \<open>The stores that the program produces\<close>

text \<open>
  Every constructor of a builder runs \<^verbatim>\<open>reset\<close>, so a builder always holds a house, and
  \<^verbatim>\<open>setBuilder\<close> is typed to take a builder, so a bound director points to one. The empty
  store is such a store and every operation of the program keeps it so (lemmas
  \<open>wf_empty_store\<close> to \<open>wf_recipes\<close> below).
\<close>

definition wf_store :: "store \<Rightarrow> bool" where
  "wf_store s =
     (list_all (\<lambda>B. case house B of None \<Rightarrow> False | Some h \<Rightarrow> h < length (houses s)) (builders s) \<and>
      list_all (\<lambda>D. case builder D of None \<Rightarrow> True | Some b \<Rightarrow> b < length (builders s)) (directors s))"

section \<open>What each operation does to the store\<close>

text \<open>
  The operations written out on a store in which the references they follow are valid.
  A constructor leaves such a store behind and every builder operation keeps it so
  (\<open>new_Builder_Return\<close>, \<open>run_op_frame\<close>), which is why the theorems below can ask for it.
\<close>

lemma reset_Return:
  assumes "b < length (builders s)"
  shows "reset b s = Return ()
           (s\<lparr>houses := houses s @ [\<lparr>parts = []\<rparr>],
              builders := (builders s)[b := (builders s ! b)\<lparr>house := Some (length (houses s))\<rparr>]\<rparr>)"
  using assms by (simp add: reset_def new_House_def)

lemma new_Builder_Return:
  "new_Builder c s = Return (length (builders s))
     (s\<lparr>houses := houses s @ [\<lparr>parts = []\<rparr>],
        builders := builders s @ [\<lparr>cls = c, house = Some (length (houses s))\<rparr>]\<rparr>)"
  by (simp add: new_Builder_def reset_Return)

lemma produce_Return:
  assumes "b < length (builders s)" and "house (builders s ! b) = Some h" and "h < length (houses s)"
  shows "produce st b s = Return ()
           (s\<lparr>houses := (houses s)[h := (houses s ! h)\<lparr>parts := parts (houses s ! h) @ [label (cls (builders s ! b)) st]\<rparr>]\<rparr>)"
  using assms by (simp add: produce_def push_part_def)

lemma getHouse_Return:
  assumes "b < length (builders s)"
  shows "getHouse b s = Return (house (builders s ! b))
           (s\<lparr>houses := houses s @ [\<lparr>parts = []\<rparr>],
              builders := (builders s)[b := (builders s ! b)\<lparr>house := Some (length (houses s))\<rparr>]\<rparr>)"
  using assms by (simp add: getHouse_def reset_Return)

text \<open>A sequence of steps appends its labels, in order, to the builder's current house.\<close>

lemma run_steps_Return:
  assumes "b < length (builders s)" and "house (builders s ! b) = Some h" and "h < length (houses s)"
  shows "run_steps S b s = Return ()
           (s\<lparr>houses := (houses s)[h := (houses s ! h)\<lparr>parts := parts (houses s ! h) @ map (label (cls (builders s ! b))) S\<rparr>]\<rparr>)"
  using assms
proof (induction S arbitrary: s)
  case Nil
  then show ?case by simp
next
  case (Cons st S)
  let ?s1 = "s\<lparr>houses := (houses s)[h := (houses s ! h)\<lparr>parts := parts (houses s ! h) @ [label (cls (builders s ! b)) st]\<rparr>]\<rparr>"
  have first: "produce st b s = Return () ?s1"
    using Cons.prems by (rule produce_Return)
  have rest: "run_steps S b ?s1 = Return ()
      (?s1\<lparr>houses := (houses ?s1)[h := (houses ?s1 ! h)\<lparr>parts := parts (houses ?s1 ! h) @ map (label (cls (builders ?s1 ! b))) S\<rparr>]\<rparr>)"
    using Cons.prems by (intro Cons.IH) simp_all
  show ?case
    using Cons.prems by (simp add: first rest)
qed

text \<open>
  Frame: a builder operation writes the builder's current house or allocates a new one,
  so a house \<open>h\<close> that is not the current one keeps its content.
\<close>

lemma run_op_frame:
  assumes "b < length (builders s)" and "house (builders s ! b) = Some h'" and "h' < length (houses s)"
      and "h < length (houses s)" and "h \<noteq> h'"
  shows "\<exists>x s2 h''. run_op opn b s = Return x s2 \<and> b < length (builders s2) \<and>
           house (builders s2 ! b) = Some h'' \<and> h'' < length (houses s2) \<and>
           h < length (houses s2) \<and> h \<noteq> h'' \<and> houses s2 ! h = houses s ! h"
  using assms
  by (cases opn) (simp_all add: produce_Return reset_Return getHouse_Return get_parts_def nth_append)

lemma run_ops_frame:
  assumes "b < length (builders s)" and "house (builders s ! b) = Some h'" and "h' < length (houses s)"
      and "h < length (houses s)" and "h \<noteq> h'"
  shows "\<exists>xs s2. run_ops ops b s = Return xs s2 \<and> h < length (houses s2) \<and> houses s2 ! h = houses s ! h"
  using assms
proof (induction ops arbitrary: s h')
  case Nil
  then show ?case by simp
next
  case (Cons opn ops)
  from run_op_frame [OF Cons.prems, of opn]
  obtain x s1 h'' where one: "run_op opn b s = Return x s1" "b < length (builders s1)"
      "house (builders s1 ! b) = Some h''" "h'' < length (houses s1)"
      "h < length (houses s1)" "h \<noteq> h''" "houses s1 ! h = houses s ! h"
    by blast
  from Cons.IH [OF one(2-6)]
  obtain xs s2 where more: "run_ops ops b s1 = Return xs s2" "h < length (houses s2)"
      "houses s2 ! h = houses s1 ! h"
    by blast
  show ?case
    by (simp add: one(1) more(1) more(2) more(3) one(7))
qed

text \<open>
  Two builders of the same class whose current houses carry the same labels, in any two
  stores, answer every operation alike and stay so related.
\<close>

lemma run_op_related:
  assumes "b1 < length (builders s)" and "house (builders s ! b1) = Some h1" and "h1 < length (houses s)"
      and "b2 < length (builders t)" and "house (builders t ! b2) = Some h2" and "h2 < length (houses t)"
      and "cls (builders s ! b1) = cls (builders t ! b2)"
      and "parts (houses s ! h1) = parts (houses t ! h2)"
  shows "\<exists>x s' t' k1 k2. run_op opn b1 s = Return x s' \<and> run_op opn b2 t = Return x t' \<and>
           b1 < length (builders s') \<and> house (builders s' ! b1) = Some k1 \<and> k1 < length (houses s') \<and>
           b2 < length (builders t') \<and> house (builders t' ! b2) = Some k2 \<and> k2 < length (houses t') \<and>
           cls (builders s' ! b1) = cls (builders t' ! b2) \<and>
           parts (houses s' ! k1) = parts (houses t' ! k2)"
  using assms
  by (cases opn) (simp_all add: produce_Return reset_Return getHouse_Return get_parts_def nth_append)

lemma run_ops_related:
  assumes "b1 < length (builders s)" and "house (builders s ! b1) = Some h1" and "h1 < length (houses s)"
      and "b2 < length (builders t)" and "house (builders t ! b2) = Some h2" and "h2 < length (houses t)"
      and "cls (builders s ! b1) = cls (builders t ! b2)"
      and "parts (houses s ! h1) = parts (houses t ! h2)"
  shows "\<exists>xs s' t'. run_ops ops b1 s = Return xs s' \<and> run_ops ops b2 t = Return xs t'"
  using assms
proof (induction ops arbitrary: s t h1 h2)
  case Nil
  then show ?case by simp
next
  case (Cons opn ops)
  from run_op_related [OF Cons.prems, of opn]
  obtain x s1 t1 k1 k2 where one: "run_op opn b1 s = Return x s1" "run_op opn b2 t = Return x t1"
      and rel: "b1 < length (builders s1)" "house (builders s1 ! b1) = Some k1" "k1 < length (houses s1)"
        "b2 < length (builders t1)" "house (builders t1 ! b2) = Some k2" "k2 < length (houses t1)"
        "cls (builders s1 ! b1) = cls (builders t1 ! b2)"
        "parts (houses s1 ! k1) = parts (houses t1 ! k2)"
    by blast
  from Cons.IH [OF rel]
  obtain xs s2 t2 where more: "run_ops ops b1 s1 = Return xs s2" "run_ops ops b2 t1 = Return xs t2"
    by blast
  show ?case
    by (simp add: one more)
qed

lemma this_builder_bound:
  assumes "d < length (directors s)" and "builder (directors s ! d) = Some b"
  shows "this_builder d m s = m b s"
  using assms by (simp add: this_builder_def)

lemmas produce_defs =
  produceWalls_def produceWindows_def produceDoor_def produceRoof_def
  produceSwimmingPool_def produceGarage_def produceGarden_def

text \<open>
  Well-formed stores: what they give, that the empty store is one, and that constructors,
  \<^verbatim>\<open>setBuilder\<close> with a builder, the builder operations, \<^verbatim>\<open>listParts\<close> and the recipes on
  a bound director return and leave a well-formed store.
\<close>

lemma wf_builder:
  assumes "wf_store s" and "b < length (builders s)"
  shows "\<exists>h. house (builders s ! b) = Some h \<and> h < length (houses s)"
  using assms by (auto simp: wf_store_def list_all_length split: option.splits)

lemma wf_director:
  assumes "wf_store s" and "d < length (directors s)" and "builder (directors s ! d) = Some b"
  shows "b < length (builders s)"
  using assms by (auto simp: wf_store_def list_all_length split: option.splits)

lemma wf_empty_store: "wf_store empty_store"
  by (simp add: wf_store_def empty_store_def)

lemma wf_new_Director:
  assumes "wf_store s"
  shows "\<exists>d s'. new_Director s = Return d s' \<and> wf_store s'"
  using assms
  by (auto simp: new_Director_def wf_store_def list_all_length nth_append split: option.splits)

lemma wf_new_Builder:
  assumes "wf_store s"
  shows "\<exists>b s'. new_Builder c s = Return b s' \<and> wf_store s'"
  using assms
  by (auto simp: new_Builder_Return wf_store_def list_all_length nth_append split: option.splits)

lemma wf_setBuilder:
  assumes "wf_store s" and "d < length (directors s)" and "b < length (builders s)"
  shows "\<exists>s'. setBuilder d b s = Return () s' \<and> wf_store s'"
  using assms
  by (auto simp: setBuilder_def wf_store_def list_all_length nth_list_update split: option.splits)

lemma wf_run_op:
  assumes "wf_store s" and "b < length (builders s)"
  shows "\<exists>x s'. run_op opn b s = Return x s' \<and> wf_store s'"
proof -
  from wf_builder [OF assms] obtain h where h: "house (builders s ! b) = Some h" "h < length (houses s)"
    by blast
  show ?thesis
    using assms h
    by (cases opn)
       (auto simp: produce_Return reset_Return getHouse_Return get_parts_def wf_store_def
          list_all_length nth_list_update nth_append split: option.splits)
qed

lemma wf_listParts:
  assumes "wf_store s" and "h < length (houses s)"
  shows "\<exists>s'. listParts h s = Return () s' \<and> wf_store s'"
  using assms
  by (auto simp: listParts_def console_log_def wf_store_def list_all_length split: option.splits)

lemma recipes_Return:
  assumes "d < length (directors s)" and "builder (directors s ! d) = Some b"
      and "b < length (builders s)" and "house (builders s ! b) = Some h" and "h < length (houses s)"
  shows "\<exists>s'. buildBasicHouse d s = Return () s' \<and> houses s' = (houses s)[h := houses s' ! h] \<and>
               builders s' = builders s \<and> directors s' = directors s"
    and "\<exists>s'. buildFullHouse d s = Return () s' \<and> houses s' = (houses s)[h := houses s' ! h] \<and>
               builders s' = builders s \<and> directors s' = directors s"
    and "\<exists>s'. buildLuxuryHouse d s = Return () s' \<and> houses s' = (houses s)[h := houses s' ! h] \<and>
               builders s' = builders s \<and> directors s' = directors s"
  using assms
  by (simp_all add: buildBasicHouse_def buildFullHouse_def buildLuxuryHouse_def this_builder_bound
        produce_defs produce_Return)

lemma wf_recipes:
  assumes "wf_store s" and "d < length (directors s)" and "builder (directors s ! d) = Some b"
  shows "\<exists>s'. buildBasicHouse d s = Return () s' \<and> wf_store s'"
    and "\<exists>s'. buildFullHouse d s = Return () s' \<and> wf_store s'"
    and "\<exists>s'. buildLuxuryHouse d s = Return () s' \<and> wf_store s'"
proof -
  have b: "b < length (builders s)"
    using assms by (rule wf_director)
  from wf_builder [OF assms(1) b] obtain h where h: "house (builders s ! b) = Some h" "h < length (houses s)"
    by blast
  have keep: "wf_store s'" if "houses s' = (houses s)[h := houses s' ! h]" "builders s' = builders s"
      "directors s' = directors s" for s'
  proof -
    have "length (houses s') = length (houses s)"
      using that(1) by (metis length_list_update)
    then show ?thesis
      using assms(1) that(2,3) by (auto simp: wf_store_def list_all_length split: option.splits)
  qed
  show "\<exists>s'. buildBasicHouse d s = Return () s' \<and> wf_store s'"
    using recipes_Return(1) [OF assms(2,3) b h] keep by blast
  show "\<exists>s'. buildFullHouse d s = Return () s' \<and> wf_store s'"
    using recipes_Return(2) [OF assms(2,3) b h] keep by blast
  show "\<exists>s'. buildLuxuryHouse d s = Return () s' \<and> wf_store s'"
    using recipes_Return(3) [OF assms(2,3) b h] keep by blast
qed

text \<open>The two variants of \<^verbatim>\<open>builder.ts\<close> differ in the label of the walls and in no other.\<close>

lemma label_variants: "label CheapHouseBuilder st = label CastleBuilder st \<longleftrightarrow> st \<noteq> Walls"
  by (cases st) simp_all

section \<open>The claims\<close>

subsection \<open>Steps and retrieval\<close>

text \<open>
  Claim C1. Whatever sequence \<open>S\<close> of steps a client calls on a builder that has just been
  reset, the house that the following \<^verbatim>\<open>getHouse\<close> returns carries exactly the labels of
  \<open>S\<close> for the builder's class, one per call and in the order of the calls: nothing is
  reordered, dropped or merged.
\<close>

theorem steps_in_call_order:
  assumes "b < length (builders s)"
  shows "\<exists>s1 s2 h s3.
           reset b s = Return () s1 \<and>
           run_steps S b s1 = Return () s2 \<and>
           getHouse b s2 = Return (Some h) s3 \<and>
           h < length (houses s3) \<and>
           parts (houses s3 ! h) = map (label (cls (builders s ! b))) S"
  using assms
  by (simp add: reset_Return run_steps_Return [where h = "length (houses s)"] getHouse_Return nth_append)

theorem steps_in_call_order_witness:
  "0 < length (builders
      \<lparr>houses = [], builders = [\<lparr>cls = CastleBuilder, house = None\<rparr>], directors = [], console = []\<rparr>) \<and>
   (\<exists>s1 s2 h s3.
      reset 0
      \<lparr>houses = [], builders = [\<lparr>cls = CastleBuilder, house = None\<rparr>], directors = [], console = []\<rparr> = Return () s1 \<and>
      run_steps [Roof, Walls, Door, Walls] 0 s1 = Return () s2 \<and>
      getHouse 0 s2 = Return (Some h) s3 \<and>
      h < length (houses s3) \<and>
      parts (houses s3 ! h) = [''Roof'', ''Walls marmol'', ''Door'', ''Walls marmol''])"
  using steps_in_call_order [of 0 "\<lparr>houses = [], builders = [\<lparr>cls = CastleBuilder, house = None\<rparr>], directors = [], console = []\<rparr>" "[Roof, Walls, Door, Walls]"]
  by simp

text \<open>
  Claim C5. On any builder, in any state, a \<^verbatim>\<open>getHouse\<close> that directly follows another
  \<^verbatim>\<open>getHouse\<close> returns a house with no labels.
\<close>

theorem getHouse_twice_empty:
  assumes "b < length (builders s)"
  shows "\<exists>r1 s1 h2 s2.
           getHouse b s = Return r1 s1 \<and>
           getHouse b s1 = Return (Some h2) s2 \<and>
           h2 < length (houses s2) \<and>
           parts (houses s2 ! h2) = []"
  using assms by (simp add: getHouse_Return nth_append)

theorem getHouse_twice_empty_witness:
  "0 < length (builders
      \<lparr>houses = [\<lparr>parts = [''Walls'', ''Roof'']\<rparr>], builders = [\<lparr>cls = CheapHouseBuilder, house = Some 0\<rparr>], directors = [], console = []\<rparr>) \<and>
   (\<exists>s1 s2.
      getHouse 0
      \<lparr>houses = [\<lparr>parts = [''Walls'', ''Roof'']\<rparr>], builders = [\<lparr>cls = CheapHouseBuilder, house = Some 0\<rparr>], directors = [], console = []\<rparr> = Return (Some 0) s1 \<and>
      parts (houses s1 ! 0) = [''Walls'', ''Roof''] \<and>
      getHouse 0 s1 = Return (Some 1) s2 \<and>
      parts (houses s2 ! 1) = [])"
  using getHouse_twice_empty [of 0 "\<lparr>houses = [\<lparr>parts = [''Walls'', ''Roof'']\<rparr>], builders = [\<lparr>cls = CheapHouseBuilder, house = Some 0\<rparr>], directors = [], console = []\<rparr>"]
  by (simp add: getHouse_Return)

text \<open>
  Claim C8. Once \<^verbatim>\<open>getHouse\<close> has returned a house \<open>h\<close>, the builder holds another, new
  and empty house, and no later operation on the builder (a step, \<^verbatim>\<open>reset\<close> or another
  \<^verbatim>\<open>getHouse\<close>, in any number and order) changes \<open>h\<close>.
\<close>

theorem retrieved_house_detached:
  assumes "b < length (builders s)" and "house (builders s ! b) = Some h" and "h < length (houses s)"
  shows "\<exists>s1 h'. getHouse b s = Return (Some h) s1 \<and>
           houses s1 ! h = houses s ! h \<and>
           house (builders s1 ! b) = Some h' \<and> h' \<noteq> h \<and> h' < length (houses s1) \<and>
           parts (houses s1 ! h') = [] \<and>
           (\<forall>ops. \<exists>xs s2. run_ops ops b s1 = Return xs s2 \<and>
                     h < length (houses s2) \<and> houses s2 ! h = houses s1 ! h)"
proof -
  let ?s1 = "s\<lparr>houses := houses s @ [\<lparr>parts = []\<rparr>],
                builders := (builders s)[b := (builders s ! b)\<lparr>house := Some (length (houses s))\<rparr>]\<rparr>"
  have get: "getHouse b s = Return (Some h) ?s1"
    using assms by (simp add: getHouse_Return)
  have b1: "b < length (builders ?s1)" and cur: "house (builders ?s1 ! b) = Some (length (houses s))"
    and fresh: "length (houses s) < length (houses ?s1)" and old: "h < length (houses ?s1)"
    and diff: "h \<noteq> length (houses s)"
    using assms by simp_all
  have same: "houses ?s1 ! h = houses s ! h"
    using assms by (simp add: nth_append)
  have empty: "parts (houses ?s1 ! length (houses s)) = []"
    by simp
  have later: "\<exists>xs s2. run_ops ops b ?s1 = Return xs s2 \<and> h < length (houses s2) \<and>
      houses s2 ! h = houses ?s1 ! h" for ops
    using b1 cur fresh old diff by (rule run_ops_frame)
  show ?thesis
    using get same cur diff fresh empty later
    by (intro exI [of _ ?s1] exI [of _ "length (houses s)"]) blast
qed

theorem retrieved_house_detached_witness:
  "0 < length (builders
      \<lparr>houses = [\<lparr>parts = [''Walls'', ''Door'']\<rparr>], builders = [\<lparr>cls = CheapHouseBuilder, house = Some 0\<rparr>], directors = [], console = []\<rparr>) \<and>
   (\<exists>s1 xs s2.
      getHouse 0
      \<lparr>houses = [\<lparr>parts = [''Walls'', ''Door'']\<rparr>], builders = [\<lparr>cls = CheapHouseBuilder, house = Some 0\<rparr>], directors = [], console = []\<rparr> = Return (Some 0) s1 \<and>
      run_ops [Step Roof, GetHouse, Reset, Step Garden] 0 s1 = Return xs s2 \<and>
      xs = [None, Some [''Roof''], None, None] \<and>
      parts (houses s2 ! 0) = [''Walls'', ''Door''])"
  using retrieved_house_detached [of 0 "\<lparr>houses = [\<lparr>parts = [''Walls'', ''Door'']\<rparr>], builders = [\<lparr>cls = CheapHouseBuilder, house = Some 0\<rparr>], directors = [], console = []\<rparr>" 0]
  by (simp add: getHouse_Return reset_Return produce_Return get_parts_def)

subsection \<open>The recipes of the director\<close>

text \<open>
  Claim C2. On a director bound to a builder \<open>b\<close>, in any state of \<open>b\<close>, one call of the full
  recipe (\<^verbatim>\<open>buildFullHouse\<close>, \<^verbatim>\<open>buildLuxuryHouse\<close> in the compiled file) is the seven step
  calls walls, windows, door, roof, garage, swimming pool, garden on \<open>b\<close>: it appends these
  seven labels of \<open>b\<close>'s class, in this order, to the house that \<open>b\<close> holds and changes
  nothing else.
\<close>

theorem buildFullHouse_seven_steps:
  assumes "d < length (directors s)" and "builder (directors s ! d) = Some b"
      and "b < length (builders s)" and "house (builders s ! b) = Some h" and "h < length (houses s)"
  shows "\<exists>s'. buildFullHouse d s = Return () s' \<and>
           buildLuxuryHouse d s = Return () s' \<and>
           run_steps [Walls, Windows, Door, Roof, Garage, SwimmingPool, Garden] b s = Return () s' \<and>
           s' = s\<lparr>houses := (houses s)[h := (houses s ! h)\<lparr>parts := parts (houses s ! h) @
                  map (label (cls (builders s ! b))) [Walls, Windows, Door, Roof, Garage, SwimmingPool, Garden]\<rparr>]\<rparr> \<and>
           house (builders s' ! b) = Some h \<and>
           parts (houses s' ! h) = parts (houses s ! h) @
             map (label (cls (builders s ! b))) [Walls, Windows, Door, Roof, Garage, SwimmingPool, Garden]"
  using assms
  by (simp add: buildFullHouse_def buildLuxuryHouse_def this_builder_bound produce_defs produce_Return)

theorem buildFullHouse_seven_steps_witness:
  "0 < length (directors
      \<lparr>houses = [\<lparr>parts = [''Door'']\<rparr>], builders = [\<lparr>cls = CastleBuilder, house = Some 0\<rparr>], directors = [\<lparr>builder = Some 0\<rparr>], console = []\<rparr>) \<and>
   buildFullHouse 0
      \<lparr>houses = [\<lparr>parts = [''Door'']\<rparr>], builders = [\<lparr>cls = CastleBuilder, house = Some 0\<rparr>], directors = [\<lparr>builder = Some 0\<rparr>], console = []\<rparr>
     = Return () \<lparr>houses = [\<lparr>parts = [''Door'', ''Walls marmol'', ''Windows'', ''Door'', ''Roof'',
                                        ''Garage'', ''Swimming pool'', ''Garden'']\<rparr>],
                   builders = [\<lparr>cls = CastleBuilder, house = Some 0\<rparr>],
                   directors = [\<lparr>builder = Some 0\<rparr>], console = []\<rparr>"
  using buildFullHouse_seven_steps [of 0 "\<lparr>houses = [\<lparr>parts = [''Door'']\<rparr>], builders = [\<lparr>cls = CastleBuilder, house = Some 0\<rparr>], directors = [\<lparr>builder = Some 0\<rparr>], console = []\<rparr>" 0 0]
  by simp

text \<open>
  Claim C3. On a director bound to a builder \<open>b\<close>, in any state of \<open>b\<close>, one call of
  \<^verbatim>\<open>buildBasicHouse\<close> is the four step calls walls, windows, door, roof on \<open>b\<close>: it appends
  these four labels of \<open>b\<close>'s class, in this order, to the house that \<open>b\<close> holds and changes
  nothing else.
\<close>

theorem buildBasicHouse_four_steps:
  assumes "d < length (directors s)" and "builder (directors s ! d) = Some b"
      and "b < length (builders s)" and "house (builders s ! b) = Some h" and "h < length (houses s)"
  shows "\<exists>s'. buildBasicHouse d s = Return () s' \<and>
           run_steps [Walls, Windows, Door, Roof] b s = Return () s' \<and>
           s' = s\<lparr>houses := (houses s)[h := (houses s ! h)\<lparr>parts := parts (houses s ! h) @
                  map (label (cls (builders s ! b))) [Walls, Windows, Door, Roof]\<rparr>]\<rparr> \<and>
           house (builders s' ! b) = Some h \<and>
           parts (houses s' ! h) = parts (houses s ! h) @
             map (label (cls (builders s ! b))) [Walls, Windows, Door, Roof]"
  using assms
  by (simp add: buildBasicHouse_def this_builder_bound produce_defs produce_Return)

theorem buildBasicHouse_four_steps_witness:
  "0 < length (directors
      \<lparr>houses = [\<lparr>parts = [''Garden'']\<rparr>], builders = [\<lparr>cls = CheapHouseBuilder, house = Some 0\<rparr>], directors = [\<lparr>builder = Some 0\<rparr>], console = []\<rparr>) \<and>
   buildBasicHouse 0
      \<lparr>houses = [\<lparr>parts = [''Garden'']\<rparr>], builders = [\<lparr>cls = CheapHouseBuilder, house = Some 0\<rparr>], directors = [\<lparr>builder = Some 0\<rparr>], console = []\<rparr>
     = Return () \<lparr>houses = [\<lparr>parts = [''Garden'', ''Walls'', ''Windows'', ''Door'', ''Roof'']\<rparr>],
                   builders = [\<lparr>cls = CheapHouseBuilder, house = Some 0\<rparr>],
                   directors = [\<lparr>builder = Some 0\<rparr>], console = []\<rparr>"
  using buildBasicHouse_four_steps [of 0 "\<lparr>houses = [\<lparr>parts = [''Garden'']\<rparr>], builders = [\<lparr>cls = CheapHouseBuilder, house = Some 0\<rparr>], directors = [\<lparr>builder = Some 0\<rparr>], console = []\<rparr>" 0 0]
  by simp

text \<open>
  Claim C4. A recipe called on a director whose \<^verbatim>\<open>builder\<close> field was never assigned does
  not return: the first statement calls a method on \<^verbatim>\<open>undefined\<close>, JavaScript throws a
  \<open>TypeError\<close>, and the store at the throw is the store before the call, so no house was
  touched or created. The source has no error class of its own; what tells this fault
  apart is that nothing else makes a recipe throw: on every well-formed store a recipe
  throws exactly when the director is unbound, and what it throws is this \<open>TypeError\<close>
  with the store unchanged. The witness is a director straight from \<^verbatim>\<open>new Director()\<close>,
  and a bound one whose recipes do not throw.
\<close>

theorem recipe_unbound_throws:
  assumes "d < length (directors s)"
  shows "(builder (directors s ! d) = None \<longrightarrow>
            buildBasicHouse d s = Throw TypeError s \<and>
            buildFullHouse d s = Throw TypeError s \<and>
            buildLuxuryHouse d s = Throw TypeError s) \<and>
         (wf_store s \<longrightarrow>
            (\<forall>e s'. (buildBasicHouse d s = Throw e s') =
                     (builder (directors s ! d) = None \<and> e = TypeError \<and> s' = s)) \<and>
            (\<forall>e s'. (buildFullHouse d s = Throw e s') =
                     (builder (directors s ! d) = None \<and> e = TypeError \<and> s' = s)) \<and>
            (\<forall>e s'. (buildLuxuryHouse d s = Throw e s') =
                     (builder (directors s ! d) = None \<and> e = TypeError \<and> s' = s)))"
proof (intro conjI impI)
  assume unbound: "builder (directors s ! d) = None"
  show "buildBasicHouse d s = Throw TypeError s"
    using assms unbound by (simp add: buildBasicHouse_def this_builder_def)
  show "buildFullHouse d s = Throw TypeError s"
    using assms unbound by (simp add: buildFullHouse_def this_builder_def)
  show "buildLuxuryHouse d s = Throw TypeError s"
    using assms unbound by (simp add: buildLuxuryHouse_def this_builder_def)
next
  assume wf: "wf_store s"
  show "\<forall>e s'. (buildBasicHouse d s = Throw e s') =
                     (builder (directors s ! d) = None \<and> e = TypeError \<and> s' = s)"
  proof (cases "builder (directors s ! d)")
    case None
    then show ?thesis
      using assms by (auto simp: buildBasicHouse_def this_builder_def)
  next
    case (Some b)
    with wf_recipes(1) [OF wf assms Some] show ?thesis by auto
  qed
next
  assume wf: "wf_store s"
  show "\<forall>e s'. (buildFullHouse d s = Throw e s') =
                     (builder (directors s ! d) = None \<and> e = TypeError \<and> s' = s)"
  proof (cases "builder (directors s ! d)")
    case None
    then show ?thesis
      using assms by (auto simp: buildFullHouse_def this_builder_def)
  next
    case (Some b)
    with wf_recipes(2) [OF wf assms Some] show ?thesis by auto
  qed
next
  assume wf: "wf_store s"
  show "\<forall>e s'. (buildLuxuryHouse d s = Throw e s') =
                     (builder (directors s ! d) = None \<and> e = TypeError \<and> s' = s)"
  proof (cases "builder (directors s ! d)")
    case None
    then show ?thesis
      using assms by (auto simp: buildLuxuryHouse_def this_builder_def)
  next
    case (Some b)
    with wf_recipes(3) [OF wf assms Some] show ?thesis by auto
  qed
qed

theorem recipe_unbound_throws_witness:
  "(\<exists>d s1. new_Director empty_store = Return d s1 \<and>
      d < length (directors s1) \<and> builder (directors s1 ! d) = None \<and> wf_store s1 \<and>
      buildBasicHouse d s1 = Throw TypeError s1 \<and>
      buildFullHouse d s1 = Throw TypeError s1 \<and>
      buildLuxuryHouse d s1 = Throw TypeError s1) \<and>
   (0 < length (directors
      \<lparr>houses = [\<lparr>parts = []\<rparr>], builders = [\<lparr>cls = CastleBuilder, house = Some 0\<rparr>], directors = [\<lparr>builder = Some 0\<rparr>], console = []\<rparr>) \<and>
    wf_store
      \<lparr>houses = [\<lparr>parts = []\<rparr>], builders = [\<lparr>cls = CastleBuilder, house = Some 0\<rparr>], directors = [\<lparr>builder = Some 0\<rparr>], console = []\<rparr> \<and>
    (\<forall>e s'. buildBasicHouse 0
      \<lparr>houses = [\<lparr>parts = []\<rparr>], builders = [\<lparr>cls = CastleBuilder, house = Some 0\<rparr>], directors = [\<lparr>builder = Some 0\<rparr>], console = []\<rparr> \<noteq> Throw e s') \<and>
    (\<forall>e s'. buildFullHouse 0
      \<lparr>houses = [\<lparr>parts = []\<rparr>], builders = [\<lparr>cls = CastleBuilder, house = Some 0\<rparr>], directors = [\<lparr>builder = Some 0\<rparr>], console = []\<rparr> \<noteq> Throw e s'))"
  using recipe_unbound_throws [of 0 "empty_store\<lparr>directors := [\<lparr>builder = None\<rparr>]\<rparr>"]
    recipe_unbound_throws [of 0 "\<lparr>houses = [\<lparr>parts = []\<rparr>], builders = [\<lparr>cls = CastleBuilder, house = Some 0\<rparr>], directors = [\<lparr>builder = Some 0\<rparr>], console = []\<rparr>"]
  by (simp add: new_Director_def empty_store_def wf_store_def)

text \<open>
  Claim C9. \<^verbatim>\<open>setBuilder\<close> on a director bound to a builder \<open>B\<close> makes the director's field
  point to the new builder \<open>B'\<close> and writes nothing else: the builders, \<open>B\<close> among them, and
  all houses are as before.
\<close>

theorem setBuilder_rebinds_only:
  assumes "d < length (directors s)" and "builder (directors s ! d) = Some B"
  shows "\<exists>s'. setBuilder d B' s = Return () s' \<and>
           builder (directors s' ! d) = Some B' \<and>
           builders s' = builders s \<and> houses s' = houses s \<and>
           house (builders s' ! B) = house (builders s ! B)"
  using assms by (simp add: setBuilder_def)

theorem setBuilder_rebinds_only_witness:
  "0 < length (directors
      \<lparr>houses = [\<lparr>parts = [''Walls'']\<rparr>, \<lparr>parts = []\<rparr>], builders = [\<lparr>cls = CheapHouseBuilder, house = Some 0\<rparr>, \<lparr>cls = CastleBuilder, house = Some 1\<rparr>], directors = [\<lparr>builder = Some 0\<rparr>], console = []\<rparr>) \<and>
   setBuilder 0 1
      \<lparr>houses = [\<lparr>parts = [''Walls'']\<rparr>, \<lparr>parts = []\<rparr>], builders = [\<lparr>cls = CheapHouseBuilder, house = Some 0\<rparr>, \<lparr>cls = CastleBuilder, house = Some 1\<rparr>], directors = [\<lparr>builder = Some 0\<rparr>], console = []\<rparr>
     = Return () \<lparr>houses = [\<lparr>parts = [''Walls'']\<rparr>, \<lparr>parts = []\<rparr>],
                   builders = [\<lparr>cls = CheapHouseBuilder, house = Some 0\<rparr>,
                               \<lparr>cls = CastleBuilder, house = Some 1\<rparr>],
                   directors = [\<lparr>builder = Some 1\<rparr>], console = []\<rparr>"
  using setBuilder_rebinds_only [of 0 "\<lparr>houses = [\<lparr>parts = [''Walls'']\<rparr>, \<lparr>parts = []\<rparr>], builders = [\<lparr>cls = CheapHouseBuilder, house = Some 0\<rparr>, \<lparr>cls = CastleBuilder, house = Some 1\<rparr>], directors = [\<lparr>builder = Some 0\<rparr>], console = []\<rparr>" 0 1]
  by (simp add: setBuilder_def)

subsection \<open>The listing of a house\<close>

text \<open>
  Claim C6, as amended. A new builder is bound to a new director; the basic recipe,
  \<^verbatim>\<open>getHouse\<close> and \<^verbatim>\<open>listParts\<close> then log \<^verbatim>\<open>House parts: \<close>, the four labels joined by
  \<^verbatim>\<open>, \<close> and a line feed, and the full recipe, \<^verbatim>\<open>getHouse\<close> and \<^verbatim>\<open>listParts\<close> on the same
  builder then log the seven labels in the same form. The walls label is \<^verbatim>\<open>Walls\<close> for
  \<^verbatim>\<open>CheapHouseBuilder\<close> and \<^verbatim>\<open>ConcreteBuilder1\<close> and \<^verbatim>\<open>Walls marmol\<close> for \<^verbatim>\<open>CastleBuilder\<close>.
  The full recipe is \<^verbatim>\<open>buildFullHouse\<close> for the two classes of \<^verbatim>\<open>builder.ts\<close> and
  \<^verbatim>\<open>buildLuxuryHouse\<close> for \<^verbatim>\<open>ConcreteBuilder1\<close>, whose file has no \<^verbatim>\<open>buildFullHouse\<close>.
\<close>

theorem basic_then_full_listing:
  "(\<exists>d s1 b s2 s3 s4 h1 s5 s6 s7 h2 s8 s9.
      new_Director s = Return d s1 \<and>
      new_CheapHouseBuilder s1 = Return b s2 \<and>
      setBuilder d b s2 = Return () s3 \<and>
      buildBasicHouse d s3 = Return () s4 \<and>
      getHouse b s4 = Return (Some h1) s5 \<and>
      listParts h1 s5 = Return () s6 \<and>
      console s6 = console s @ [''House parts: Walls, Windows, Door, Roof'' @ [CHR 0x0A]] \<and>
      buildFullHouse d s6 = Return () s7 \<and>
      getHouse b s7 = Return (Some h2) s8 \<and>
      listParts h2 s8 = Return () s9 \<and>
      console s9 = console s6 @
        [''House parts: Walls, Windows, Door, Roof, Garage, Swimming pool, Garden'' @ [CHR 0x0A]]) \<and>
   (\<exists>d s1 b s2 s3 s4 h1 s5 s6 s7 h2 s8 s9.
      new_Director s = Return d s1 \<and>
      new_CastleBuilder x s1 = Return b s2 \<and>
      setBuilder d b s2 = Return () s3 \<and>
      buildBasicHouse d s3 = Return () s4 \<and>
      getHouse b s4 = Return (Some h1) s5 \<and>
      listParts h1 s5 = Return () s6 \<and>
      console s6 = console s @ [''House parts: Walls marmol, Windows, Door, Roof'' @ [CHR 0x0A]] \<and>
      buildFullHouse d s6 = Return () s7 \<and>
      getHouse b s7 = Return (Some h2) s8 \<and>
      listParts h2 s8 = Return () s9 \<and>
      console s9 = console s6 @
        [''House parts: Walls marmol, Windows, Door, Roof, Garage, Swimming pool, Garden'' @ [CHR 0x0A]]) \<and>
   (\<exists>d s1 b s2 s3 s4 h1 s5 s6 s7 h2 s8 s9.
      new_Director s = Return d s1 \<and>
      new_ConcreteBuilder1 s1 = Return b s2 \<and>
      setBuilder d b s2 = Return () s3 \<and>
      buildBasicHouse d s3 = Return () s4 \<and>
      getHouse b s4 = Return (Some h1) s5 \<and>
      listParts h1 s5 = Return () s6 \<and>
      console s6 = console s @ [''House parts: Walls, Windows, Door, Roof'' @ [CHR 0x0A]] \<and>
      buildLuxuryHouse d s6 = Return () s7 \<and>
      getHouse b s7 = Return (Some h2) s8 \<and>
      listParts h2 s8 = Return () s9 \<and>
      console s9 = console s6 @
        [''House parts: Walls, Windows, Door, Roof, Garage, Swimming pool, Garden'' @ [CHR 0x0A]])"
  by (intro conjI)
     (simp_all add: new_Director_def new_CheapHouseBuilder_def new_CastleBuilder_def
        new_ConcreteBuilder1_def new_Builder_Return setBuilder_def buildBasicHouse_def
        buildFullHouse_def buildLuxuryHouse_def this_builder_def produce_defs produce_def
        push_part_def getHouse_def reset_def new_House_def listParts_def console_log_def nth_append)

text \<open>
  The claim as it was stated fails on \<^verbatim>\<open>CastleBuilder\<close>, the class that \<^verbatim>\<open>clientCode\<close> of
  \<^verbatim>\<open>builder.ts\<close> constructs (with the argument 4): the text logged after the basic recipe
  names \<^verbatim>\<open>Walls marmol\<close> and ends in a line feed.
\<close>

theorem castle_listing_counterexample:
  "\<exists>d s1 b s2 s3 s4 h1 s5 s6.
     new_Director empty_store = Return d s1 \<and>
     new_CastleBuilder (4::int) s1 = Return b s2 \<and>
     setBuilder d b s2 = Return () s3 \<and>
     buildBasicHouse d s3 = Return () s4 \<and>
     getHouse b s4 = Return (Some h1) s5 \<and>
     listParts h1 s5 = Return () s6 \<and>
     console s6 = [''House parts: Walls marmol, Windows, Door, Roof'' @ [CHR 0x0A]] \<and>
     console s6 \<noteq> [''House parts: Walls, Windows, Door, Roof'']"
  by (simp add: empty_store_def new_Director_def new_CastleBuilder_def new_Builder_Return
        setBuilder_def buildBasicHouse_def this_builder_def produce_defs produce_def push_part_def
        getHouse_def reset_def new_House_def listParts_def console_log_def)

subsection \<open>The builder variants\<close>

text \<open>
  Claim C7. The same sequence \<open>S\<close> of steps, run on a \<^verbatim>\<open>CheapHouseBuilder\<close> and on a
  \<^verbatim>\<open>CastleBuilder\<close> that have just been reset, gives two houses with as many labels as
  \<open>S\<close> has steps, and at every position both carry the label of the same step, each in
  its own class's wording. The wording differs for the walls and only for them.
\<close>

theorem variants_same_part_order:
  assumes "b1 < length (builders s)" and "cls (builders s ! b1) = CheapHouseBuilder"
      and "b2 < length (builders t)" and "cls (builders t ! b2) = CastleBuilder"
  shows "\<exists>s1 s2 h1 s3 t1 t2 h2 t3.
           reset b1 s = Return () s1 \<and> run_steps S b1 s1 = Return () s2 \<and>
           getHouse b1 s2 = Return (Some h1) s3 \<and> h1 < length (houses s3) \<and>
           reset b2 t = Return () t1 \<and> run_steps S b2 t1 = Return () t2 \<and>
           getHouse b2 t2 = Return (Some h2) t3 \<and> h2 < length (houses t3) \<and>
           length (parts (houses s3 ! h1)) = length S \<and>
           length (parts (houses t3 ! h2)) = length S \<and>
           (\<forall>i < length S.
              parts (houses s3 ! h1) ! i = label CheapHouseBuilder (S ! i) \<and>
              parts (houses t3 ! h2) ! i = label CastleBuilder (S ! i)) \<and>
           (\<forall>st. (label CheapHouseBuilder st = label CastleBuilder st) = (st \<noteq> Walls))"
  using assms
  by (simp add: reset_Return run_steps_Return [where h = "length (houses s)"]
        run_steps_Return [where h = "length (houses t)"] getHouse_Return nth_append label_variants)

theorem variants_same_part_order_witness:
  "0 < length (builders
      \<lparr>houses = [], builders = [\<lparr>cls = CheapHouseBuilder, house = None\<rparr>, \<lparr>cls = CastleBuilder, house = None\<rparr>], directors = [], console = []\<rparr>) \<and> cls (builders
      \<lparr>houses = [], builders = [\<lparr>cls = CheapHouseBuilder, house = None\<rparr>, \<lparr>cls = CastleBuilder, house = None\<rparr>], directors = [], console = []\<rparr> ! 0) = CheapHouseBuilder \<and>
   1 < length (builders
      \<lparr>houses = [], builders = [\<lparr>cls = CheapHouseBuilder, house = None\<rparr>, \<lparr>cls = CastleBuilder, house = None\<rparr>], directors = [], console = []\<rparr>) \<and> cls (builders
      \<lparr>houses = [], builders = [\<lparr>cls = CheapHouseBuilder, house = None\<rparr>, \<lparr>cls = CastleBuilder, house = None\<rparr>], directors = [], console = []\<rparr> ! 1) = CastleBuilder \<and>
   (\<exists>s1 s2 h1 s3 t1 t2 h2 t3.
      reset 0
      \<lparr>houses = [], builders = [\<lparr>cls = CheapHouseBuilder, house = None\<rparr>, \<lparr>cls = CastleBuilder, house = None\<rparr>], directors = [], console = []\<rparr> = Return () s1 \<and> run_steps [Garden, Walls, Walls] 0 s1 = Return () s2 \<and>
      getHouse 0 s2 = Return (Some h1) s3 \<and>
      parts (houses s3 ! h1) = [''Garden'', ''Walls'', ''Walls''] \<and>
      reset 1
      \<lparr>houses = [], builders = [\<lparr>cls = CheapHouseBuilder, house = None\<rparr>, \<lparr>cls = CastleBuilder, house = None\<rparr>], directors = [], console = []\<rparr> = Return () t1 \<and> run_steps [Garden, Walls, Walls] 1 t1 = Return () t2 \<and>
      getHouse 1 t2 = Return (Some h2) t3 \<and>
      parts (houses t3 ! h2) = [''Garden'', ''Walls marmol'', ''Walls marmol''])"
  using variants_same_part_order [of 0 "\<lparr>houses = [], builders = [\<lparr>cls = CheapHouseBuilder, house = None\<rparr>, \<lparr>cls = CastleBuilder, house = None\<rparr>], directors = [], console = []\<rparr>" 1 "\<lparr>houses = [], builders = [\<lparr>cls = CheapHouseBuilder, house = None\<rparr>, \<lparr>cls = CastleBuilder, house = None\<rparr>], directors = [], console = []\<rparr>" "[Garden, Walls, Walls]"]
  by (simp add: reset_Return produce_def push_part_def getHouse_Return)

text \<open>
  Claim C10. The constructor of \<^verbatim>\<open>CastleBuilder\<close> does not look at its argument. Called
  with two arguments \<open>x\<close> and \<open>y\<close>, of any types, on the same store it returns the same
  reference and the same store; and two instances made with \<open>x\<close> and \<open>y\<close> anywhere (in two
  stores, or one after the other in one store, \<open>t\<close> being any store) each hold an empty
  house, and every sequence of operations shows the same on both.
\<close>

theorem CastleBuilder_argument_ignored:
  "new_CastleBuilder x s = new_CastleBuilder y s \<and>
   (\<exists>b1 s1 h1 b2 t1 h2.
      new_CastleBuilder x s = Return b1 s1 \<and> new_CastleBuilder y t = Return b2 t1 \<and>
      cls (builders s1 ! b1) = CastleBuilder \<and> cls (builders t1 ! b2) = CastleBuilder \<and>
      house (builders s1 ! b1) = Some h1 \<and> parts (houses s1 ! h1) = [] \<and>
      house (builders t1 ! b2) = Some h2 \<and> parts (houses t1 ! h2) = [] \<and>
      (\<forall>ops. \<exists>xs s2 t2. run_ops ops b1 s1 = Return xs s2 \<and> run_ops ops b2 t1 = Return xs t2))"
proof -
  let ?s1 = "s\<lparr>houses := houses s @ [\<lparr>parts = []\<rparr>],
                builders := builders s @ [\<lparr>cls = CastleBuilder, house = Some (length (houses s))\<rparr>]\<rparr>"
  let ?t1 = "t\<lparr>houses := houses t @ [\<lparr>parts = []\<rparr>],
                builders := builders t @ [\<lparr>cls = CastleBuilder, house = Some (length (houses t))\<rparr>]\<rparr>"
  have same: "new_CastleBuilder x s = new_CastleBuilder y s"
    by (simp add: new_CastleBuilder_def)
  have nx: "new_CastleBuilder x s = Return (length (builders s)) ?s1"
    and ny: "new_CastleBuilder y t = Return (length (builders t)) ?t1"
    by (simp_all add: new_CastleBuilder_def new_Builder_Return)
  have run: "\<exists>xs s2 t2. run_ops ops (length (builders s)) ?s1 = Return xs s2 \<and>
      run_ops ops (length (builders t)) ?t1 = Return xs t2" for ops
    by (rule run_ops_related [where ?h1.0 = "length (houses s)" and ?h2.0 = "length (houses t)"]) simp_all
  have two: "\<exists>b1 s1 h1 b2 t1 h2.
      new_CastleBuilder x s = Return b1 s1 \<and> new_CastleBuilder y t = Return b2 t1 \<and>
      cls (builders s1 ! b1) = CastleBuilder \<and> cls (builders t1 ! b2) = CastleBuilder \<and>
      house (builders s1 ! b1) = Some h1 \<and> parts (houses s1 ! h1) = [] \<and>
      house (builders t1 ! b2) = Some h2 \<and> parts (houses t1 ! h2) = [] \<and>
      (\<forall>ops. \<exists>xs s2 t2. run_ops ops b1 s1 = Return xs s2 \<and> run_ops ops b2 t1 = Return xs t2)"
    using run by (simp add: nx ny)
  from same two show ?thesis ..
qed

end
